theory Spec2Isabelle
  imports Complex_Main "HOL-Library.Word"
begin

section \<open>Python values used by \<^verbatim>\<open>ascii_art.py\<close>\<close>

text \<open>
  The module has one function, \<^verbatim>\<open>image_to_ascii\<close>, and a script section under
  \<^verbatim>\<open>if __name__ == "__main__"\<close>. Python integers are \<open>int\<close>, Python strings are
  \<open>string\<close>, a NumPy \<^verbatim>\<open>uint8\<close> is an \<open>8 word\<close>. An exception raised inside the
  \<^verbatim>\<open>try\<close> block is a value of type \<open>exn\<close>, carrying the text that \<^verbatim>\<open>str(e)\<close>
  gives; a computation that may raise has a result of type \<open>exn + 'a\<close>, with \<open>Inl\<close> for
  the exception. Every exception below is a subclass of \<^verbatim>\<open>Exception\<close>; the only handler
  that tells them apart is \<^verbatim>\<open>except FileNotFoundError\<close>.
\<close>

datatype exn =
    FileNotFoundError string
  | PermissionError string
  | UnidentifiedImageError string
  | ZeroDivisionError string
  | ValueError string
  | OverflowError string
  | IndexError string

fun str_exn :: "exn \<Rightarrow> string" where
  "str_exn (FileNotFoundError m) = m"
| "str_exn (PermissionError m) = m"
| "str_exn (UnidentifiedImageError m) = m"
| "str_exn (ZeroDivisionError m) = m"
| "str_exn (ValueError m) = m"
| "str_exn (OverflowError m) = m"
| "str_exn (IndexError m) = m"

fun is_FileNotFoundError :: "exn \<Rightarrow> bool" where
  "is_FileNotFoundError (FileNotFoundError m) = True"
| "is_FileNotFoundError e = False"

subsection \<open>Integers\<close>

text \<open>\<^verbatim>\<open>a // b\<close> on Python integers: floor division, \<^verbatim>\<open>ZeroDivisionError\<close> for \<open>b = 0\<close>.\<close>

definition py_floordiv :: "int \<Rightarrow> int \<Rightarrow> exn + int" where
  "py_floordiv a b =
     (if b = 0 then Inl (ZeroDivisionError ''integer division or modulo by zero'')
      else Inr (a div b))"

text \<open>
  \<^verbatim>\<open>pixel // pixel_range\<close> where \<^verbatim>\<open>pixel\<close> is a NumPy \<^verbatim>\<open>uint8\<close> scalar and
  \<^verbatim>\<open>pixel_range\<close> a Python integer between 0 and 255 (it is \<^verbatim>\<open>255 // len(chars)\<close>).
  NumPy's integer floor division does not raise on a zero divisor: it gives 0 and emits
  a \<^verbatim>\<open>RuntimeWarning\<close>. The quotient is returned as its value.
\<close>

definition np_floor_divide :: "8 word \<Rightarrow> int \<Rightarrow> int" where
  "np_floor_divide pixel d = (if d = 0 then 0 else uint pixel div d)"

subsection \<open>Strings\<close>

text \<open>\<^verbatim>\<open>chars[index]\<close>: a negative index counts from the end, anything out of range raises.\<close>

definition py_getitem :: "string \<Rightarrow> int \<Rightarrow> exn + char" where
  "py_getitem s i =
     (let len = int (length s)
      in if 0 \<le> i \<and> i < len then Inr (s ! nat i)
         else if - len \<le> i \<and> i < 0 then Inr (s ! nat (len + i))
         else Inl (IndexError ''string index out of range''))"

definition newline :: char where
  "newline = CHR 0x0A"

text \<open>\<^verbatim>\<open>sep.join(xs)\<close>.\<close>

fun py_join :: "string \<Rightarrow> string list \<Rightarrow> string" where
  "py_join sep [] = []"
| "py_join sep [x] = x"
| "py_join sep (x # y # ys) = x @ sep @ py_join sep (y # ys)"

text \<open>\<^verbatim>\<open>s.startswith(prefix)\<close>.\<close>

definition py_startswith :: "string \<Rightarrow> string \<Rightarrow> bool" where
  "py_startswith s pre = (take (length pre) s = pre)"

text \<open>\<^verbatim>\<open>s.split(c)\<close> for a one-character separator: the rows of a text.\<close>

fun py_split :: "char \<Rightarrow> string \<Rightarrow> string list" where
  "py_split c [] = [ [] ]"
| "py_split c (x # xs) =
     (if x = c then [] # py_split c xs
      else (case py_split c xs of
              [] \<Rightarrow> [ [x] ]
            | r # rs \<Rightarrow> (x # r) # rs))"

text \<open>\<^verbatim>\<open>needle in hay\<close> on strings, and \<^verbatim>\<open>s.lower()\<close> on ASCII letters.\<close>

fun py_in :: "string \<Rightarrow> string \<Rightarrow> bool" where
  "py_in needle [] = (needle = [])"
| "py_in needle (h # hay) = (py_startswith (h # hay) needle \<or> py_in needle hay)"

definition lower_char :: "char \<Rightarrow> char" where
  "lower_char c =
     (let n = (of_char c :: nat)
      in if 65 \<le> n \<and> n \<le> 90 then char_of (n + 32) else c)"

definition py_lower :: "string \<Rightarrow> string" where
  "py_lower s = map lower_char s"

text \<open>
  \<^verbatim>\<open>repr(s)\<close> for a string without quotes, backslashes or control characters, as
  file names appear in the messages of exceptions: the string between single quotes.
\<close>

definition py_repr :: "string \<Rightarrow> string" where
  "py_repr s = CHR 0x27 # s @ [CHR 0x27]"

subsection \<open>Floats\<close>

text \<open>
  A Python float is an IEEE 754 binary64 value: a finite one is a rational number
  \<open>m * 2 ^ e\<close> with \<open>\<bar>m\<bar> < 2 ^ 53\<close> and \<open>-1074 \<le> e \<le> 971\<close>, and there are two
  infinities and NaN. Each arithmetic operation gives the exact result rounded to the
  nearest such value, ties to the even significand. The sign of zero is not recorded:
  no operation of the program depends on it.
\<close>

datatype pyfloat = Finite rat | PosInf | NegInf | NaN

definition pow2 :: "int \<Rightarrow> rat" where
  "pow2 e = (if 0 \<le> e then 2 ^ nat e else 1 / 2 ^ nat (- e))"

text \<open>\<^verbatim>\<open>n.bit_length()\<close> for \<open>n \<ge> 0\<close>.\<close>

function bit_length :: "int \<Rightarrow> int" where
  "bit_length n = (if n \<le> 0 then 0 else 1 + bit_length (n div 2))"
  by pat_completeness auto
termination
  by (relation "measure nat") auto

declare bit_length.simps [simp del]

text \<open>
  For \<open>a > 0\<close>: the \<open>k\<close> with \<open>2 ^ k \<le> a < 2 ^ (k + 1)\<close>. For \<open>a \<ge> 1\<close> it is the
  \<open>k\<close> of the integer part of \<open>a\<close>; for \<open>a < 1\<close> the least \<open>j\<close> with \<open>1 / a \<le> 2 ^ j\<close>
  is the bit length of \<open>\<lceil>1 / a\<rceil> - 1\<close>, and \<open>k = - j\<close>.
\<close>

definition floor_log2 :: "rat \<Rightarrow> int" where
  "floor_log2 a =
     (if 1 \<le> a then bit_length \<lfloor>a\<rfloor> - 1
      else - bit_length (\<lceil>1 / a\<rceil> - 1))"

definition round_half_even :: "rat \<Rightarrow> int" where
  "round_half_even q =
     (let f = \<lfloor>q\<rfloor>; d = q - of_int f
      in if d < 1 / 2 then f
         else if 1 / 2 < d then f + 1
         else if even f then f else f + 1)"

definition round_binary64 :: "rat \<Rightarrow> pyfloat" where
  "round_binary64 x =
     (if x = 0 then Finite 0
      else
        let a = \<bar>x\<bar>;
            e = max (floor_log2 a - 52) (- 1074);
            r = of_int (round_half_even (a / pow2 e)) * pow2 e
        in if pow2 1024 \<le> r then (if 0 < x then PosInf else NegInf)
           else Finite (if 0 < x then r else - r))"

text \<open>\<^verbatim>\<open>a / b\<close> on Python integers: the correctly rounded quotient.\<close>

definition py_truediv :: "int \<Rightarrow> int \<Rightarrow> exn + pyfloat" where
  "py_truediv a b =
     (if b = 0 then Inl (ZeroDivisionError ''division by zero'')
      else (case round_binary64 (of_int a / of_int b) of
              Finite r \<Rightarrow> Inr (Finite r)
            | _ \<Rightarrow> Inl (OverflowError ''integer division result too large for a float'')))"

text \<open>\<^verbatim>\<open>x * y\<close> on floats.\<close>

fun py_float_mul :: "pyfloat \<Rightarrow> pyfloat \<Rightarrow> pyfloat" where
  "py_float_mul (Finite a) (Finite b) = round_binary64 (a * b)"
| "py_float_mul NaN y = NaN"
| "py_float_mul x NaN = NaN"
| "py_float_mul (Finite a) PosInf = (if a = 0 then NaN else if 0 < a then PosInf else NegInf)"
| "py_float_mul (Finite a) NegInf = (if a = 0 then NaN else if 0 < a then NegInf else PosInf)"
| "py_float_mul PosInf (Finite b) = (if b = 0 then NaN else if 0 < b then PosInf else NegInf)"
| "py_float_mul NegInf (Finite b) = (if b = 0 then NaN else if 0 < b then NegInf else PosInf)"
| "py_float_mul PosInf PosInf = PosInf"
| "py_float_mul PosInf NegInf = NegInf"
| "py_float_mul NegInf PosInf = NegInf"
| "py_float_mul NegInf NegInf = PosInf"

text \<open>\<^verbatim>\<open>x * n\<close> for a float and an integer: the integer is converted to a float first.\<close>

definition py_float_of_int :: "int \<Rightarrow> exn + pyfloat" where
  "py_float_of_int n =
     (case round_binary64 (of_int n) of
        Finite r \<Rightarrow> Inr (Finite r)
      | _ \<Rightarrow> Inl (OverflowError ''int too large to convert to float''))"

definition py_float_mul_int :: "pyfloat \<Rightarrow> int \<Rightarrow> exn + pyfloat" where
  "py_float_mul_int x n =
     (case py_float_of_int n of
        Inl e \<Rightarrow> Inl e
      | Inr y \<Rightarrow> Inr (py_float_mul x y))"

text \<open>\<^verbatim>\<open>int(x)\<close> on a float: truncation towards zero.\<close>

fun py_int :: "pyfloat \<Rightarrow> exn + int" where
  "py_int (Finite a) = Inr (if 0 \<le> a then \<lfloor>a\<rfloor> else \<lceil>a\<rceil>)"
| "py_int NaN = Inl (ValueError ''cannot convert float NaN to integer'')"
| "py_int x = Inl (OverflowError ''cannot convert float infinity to integer'')"

section \<open>The imaging library\<close>

text \<open>
  Decoding, resampling and grey-scale conversion belong to Pillow, and the pixel array
  to NumPy. What the program relies on is modelled; what it does not look at (the
  resampling filter, the luminance weights, the content of the file system) is a
  parameter, collected in the record \<open>world\<close>.

  An image has a size and pixels. A path of the file system holds nothing, a file that
  cannot be opened, a file that is not an image, or an image; each failure carries the
  text of the exception that \<^verbatim>\<open>Image.open\<close> raises for it.
\<close>

record 'px image =
  width :: int
  height :: int
  pixels :: "int \<Rightarrow> int \<Rightarrow> 'px"

datatype 'px file_status =
    Absent string
  | Unreadable string
  | Undecodable string
  | Decodable "'px image"

record 'px world =
  files :: "string \<Rightarrow> 'px file_status"
  resampler :: "'px image \<Rightarrow> int \<times> int \<Rightarrow> int \<Rightarrow> int \<Rightarrow> 'px"
  luminance :: "'px \<Rightarrow> 8 word"

text \<open>
  \<^verbatim>\<open>Image.open(file_path)\<close>: \<^verbatim>\<open>FileNotFoundError\<close> when nothing is at the path, another
  \<^verbatim>\<open>OSError\<close> (such as \<^verbatim>\<open>PermissionError\<close>) when the file cannot be opened,
  \<^verbatim>\<open>UnidentifiedImageError\<close> when it is not an image.
\<close>

definition Image_open :: "'px world \<Rightarrow> string \<Rightarrow> exn + 'px image" where
  "Image_open w file_path =
     (case files w file_path of
        Absent m \<Rightarrow> Inl (FileNotFoundError m)
      | Unreadable m \<Rightarrow> Inl (PermissionError m)
      | Undecodable m \<Rightarrow> Inl (UnidentifiedImageError m)
      | Decodable im \<Rightarrow> Inr im)"

text \<open>
  \<^verbatim>\<open>image.resize((w, h))\<close>: a size below 1 in either direction is refused with a
  \<^verbatim>\<open>ValueError\<close>; otherwise the result has exactly the requested size. Pillow also
  fails for a size beyond its C integers or the memory, and for a file whose data prove
  truncated when they are loaded here; these failures are left out, so the model
  renders in some cases where the program returns the generic error message.
\<close>

definition Image_resize :: "'px world \<Rightarrow> 'px image \<Rightarrow> int \<times> int \<Rightarrow> exn + 'px image" where
  "Image_resize w im new_size =
     (if fst new_size < 1 \<or> snd new_size < 1
      then Inl (ValueError ''height and width must be > 0'')
      else Inr \<lparr>width = fst new_size, height = snd new_size,
                pixels = resampler w im new_size\<rparr>)"

text \<open>\<^verbatim>\<open>image.convert("L")\<close>: same size, one luminance byte per pixel.\<close>

definition Image_convert_L :: "'px world \<Rightarrow> 'px image \<Rightarrow> (8 word) image" where
  "Image_convert_L w im =
     \<lparr>width = width im, height = height im,
      pixels = (\<lambda>x y. luminance w (pixels im x y))\<rparr>"

text \<open>\<^verbatim>\<open>np.array(image)\<close> of a mode-L image: \<open>height\<close> rows of \<open>width\<close> bytes.\<close>

definition np_array :: "(8 word) image \<Rightarrow> 8 word list list" where
  "np_array im =
     map (\<lambda>y. map (\<lambda>x. pixels im (int x) (int y)) [0 ..< nat (width im)])
         [0 ..< nat (height im)]"

section \<open>\<^verbatim>\<open>image_to_ascii\<close>\<close>

definition default_chars :: string where
  "default_chars = '' .,:;ox%#@''"

definition default_columns :: int where
  "default_columns = 80"

definition default_scale :: pyfloat where
  "default_scale = Finite (1 / 2)"

text \<open>Lines 63 to 66: the size of the character grid.\<close>

definition new_height_of :: "pyfloat \<Rightarrow> 'px image \<Rightarrow> int \<Rightarrow> exn + int" where
  "new_height_of scale im columns =
     (case py_truediv (height im) (width im) of
        Inl e \<Rightarrow> Inl e
      | Inr aspect_ratio \<Rightarrow>
          (let new_width = columns
           in case py_float_mul_int (py_float_mul scale aspect_ratio) new_width of
                Inl e \<Rightarrow> Inl e
              | Inr h \<Rightarrow> py_int h))"

text \<open>Lines 61 to 72: from the path to the matrix of grey values.\<close>

definition pixel_values_of ::
  "'px world \<Rightarrow> string \<Rightarrow> int \<Rightarrow> pyfloat \<Rightarrow> exn + 8 word list list" where
  "pixel_values_of w file_path columns scale =
     (case Image_open w file_path of
        Inl e \<Rightarrow> Inl e
      | Inr im \<Rightarrow>
          (case new_height_of scale im columns of
             Inl e \<Rightarrow> Inl e
           | Inr new_height \<Rightarrow>
               (case Image_resize w im (columns, new_height) of
                  Inl e \<Rightarrow> Inl e
                | Inr resized_image \<Rightarrow>
                    Inr (np_array (Image_convert_L w resized_image)))))"

text \<open>Lines 81 and 82: the index into the ramp chosen for one pixel.\<close>

definition ramp_index :: "string \<Rightarrow> int \<Rightarrow> 8 word \<Rightarrow> int" where
  "ramp_index chars pixel_range pixel =
     (let index = np_floor_divide pixel pixel_range
      in min index (int (length chars) - 1))"

text \<open>Lines 80 to 83: the inner loop, \<open>row_chars\<close> being the string built so far.\<close>

fun render_row :: "string \<Rightarrow> int \<Rightarrow> 8 word list \<Rightarrow> string \<Rightarrow> exn + string" where
  "render_row chars pixel_range [] row_chars = Inr row_chars"
| "render_row chars pixel_range (pixel # row) row_chars =
     (case py_getitem chars (ramp_index chars pixel_range pixel) of
        Inl e \<Rightarrow> Inl e
      | Inr c \<Rightarrow> render_row chars pixel_range row (row_chars @ [c]))"

text \<open>Lines 78 to 84: the outer loop, \<open>ascii_art\<close> being the list of rows built so far.\<close>

fun render_rows ::
  "string \<Rightarrow> int \<Rightarrow> 8 word list list \<Rightarrow> string list \<Rightarrow> exn + string list" where
  "render_rows chars pixel_range [] ascii_art = Inr ascii_art"
| "render_rows chars pixel_range (row # pixel_values) ascii_art =
     (case render_row chars pixel_range row [] of
        Inl e \<Rightarrow> Inl e
      | Inr row_chars \<Rightarrow>
          render_rows chars pixel_range pixel_values (ascii_art @ [row_chars]))"

text \<open>Lines 74 to 86: from the matrix to the text.\<close>

definition render_pixels :: "string \<Rightarrow> 8 word list list \<Rightarrow> exn + string" where
  "render_pixels chars pixel_values =
     (case py_floordiv 255 (int (length chars)) of
        Inl e \<Rightarrow> Inl e
      | Inr pixel_range \<Rightarrow>
          (case render_rows chars pixel_range pixel_values [] of
             Inl e \<Rightarrow> Inl e
           | Inr ascii_art \<Rightarrow> Inr (py_join [newline] ascii_art)))"

text \<open>The body of the \<^verbatim>\<open>try\<close> block, lines 61 to 86.\<close>

definition image_to_ascii_try ::
  "'px world \<Rightarrow> string \<Rightarrow> int \<Rightarrow> pyfloat \<Rightarrow> string \<Rightarrow> exn + string" where
  "image_to_ascii_try w file_path columns scale chars =
     (case pixel_values_of w file_path columns scale of
        Inl e \<Rightarrow> Inl e
      | Inr pixel_values \<Rightarrow> render_pixels chars pixel_values)"

text \<open>The two handlers, lines 87 to 90.\<close>

definition file_not_found_message :: string where
  "file_not_found_message = ''Error: The file was not found. Check the file path.''"

definition handle_exn :: "exn \<Rightarrow> string" where
  "handle_exn e =
     (if is_FileNotFoundError e then file_not_found_message
      else ''An error occurred: '' @ str_exn e)"

definition image_to_ascii ::
  "'px world \<Rightarrow> string \<Rightarrow> int \<Rightarrow> pyfloat \<Rightarrow> string \<Rightarrow> string" where
  "image_to_ascii w file_path columns scale chars =
     (case image_to_ascii_try w file_path columns scale chars of
        Inr ascii_art \<Rightarrow> ascii_art
      | Inl e \<Rightarrow> handle_exn e)"

section \<open>The script\<close>

text \<open>
  Lines 92 to 101. What the script does to the outside is recorded: the lines printed
  and the files written, each with its content. The input path and the output path are
  constants of the script that its comments invite to replace, so they are arguments
  here, and \<open>main\<close> is the script as it stands.
\<close>

record effects =
  printed :: "string list"
  written :: "(string \<times> string) list"

definition script :: "'px world \<Rightarrow> string \<Rightarrow> string \<Rightarrow> effects" where
  "script w image_path output_path =
     (let ascii_art = image_to_ascii w image_path default_columns default_scale default_chars
      in if py_startswith ascii_art ''Error:''
         then \<lparr>printed = [ascii_art], written = []\<rparr>
         else \<lparr>printed = [], written = [(output_path, ascii_art)]\<rparr>)"

definition main :: "'px world \<Rightarrow> effects" where
  "main w = script w ''img.png'' ''ascii_art.txt''"

section \<open>The quantisation as the specification words it\<close>

text \<open>
  The specification computes \<open>pixel_range = floor(255 / len(ramp))\<close> and, for a pixel
  value \<open>p\<close>, \<open>index = min(floor(p / pixel_range), len(ramp) - 1)\<close>, with division of
  numbers and the floor function. \<open>spec_index\<close> is that formula; it is compared below
  with \<open>ramp_index\<close>, which is the code.
\<close>

definition spec_index :: "string \<Rightarrow> int \<Rightarrow> int" where
  "spec_index ramp p =
     (let pixel_range = \<lfloor>(255 :: rat) / of_nat (length ramp)\<rfloor>
      in min \<lfloor>(of_int p :: rat) / of_int pixel_range\<rfloor> (int (length ramp) - 1))"

section \<open>A file system for the examples\<close>

text \<open>
  A world whose pixels are grey values already: a white image of 10 by 10 pixels, an
  image of 2 by 2 pixels with four different grey values, a file \<^verbatim>\<open>img.png\<close> that is
  not an image, a file that may not be read, and nothing else. Its resampling keeps the
  pixel at each coordinate.
\<close>

definition demo_world :: "(8 word) world" where
  "demo_world =
     \<lparr>files = (\<lambda>p.
        if p = ''white.png''
          then Decodable \<lparr>width = 10, height = 10, pixels = (\<lambda>x y. 255)\<rparr>
        else if p = ''ramp.png''
          then Decodable \<lparr>width = 2, height = 2,
                          pixels = (\<lambda>x y. if y = 0 then (if x = 0 then 0 else 100)
                                          else (if x = 0 then 50 else 150))\<rparr>
        else if p = ''img.png''
          then Undecodable (''cannot identify image file '' @ py_repr p)
        else if p = ''secret.png''
          then Unreadable (''[Errno 13] Permission denied: '' @ py_repr p)
        else Absent (''[Errno 2] No such file or directory: '' @ py_repr p)),
      resampler = (\<lambda>im new_size x y. pixels im x y),
      luminance = (\<lambda>p. p)\<rparr>"

text \<open>The image at \<^verbatim>\<open>ramp.png\<close>, by name.\<close>

definition ramp_image :: "(8 word) image" where
  "ramp_image =
     \<lparr>width = 2, height = 2,
      pixels = (\<lambda>x y. if y = 0 then (if x = 0 then 0 else 100)
                      else (if x = 0 then 50 else 150))\<rparr>"

text \<open>The default ramp with the line break in the place of the blank.\<close>

definition newline_ramp :: string where
  "newline_ramp = newline # ''.,:;ox%#@''"

text \<open>A ramp of 256 characters: 255 times \<open>a\<close>, then \<open>b\<close>.\<close>

definition long_ramp :: string where
  "long_ramp = replicate 255 CHR ''a'' @ ''b''"

section \<open>The index chosen for a pixel\<close>

lemma np_floor_divide_nonneg: "0 \<le> d \<Longrightarrow> 0 \<le> np_floor_divide pixel d"
  by (simp add: np_floor_divide_def pos_imp_zdiv_nonneg_iff)

lemma pixel_range_nonneg: "0 \<le> (255 :: int) div int (length chars)"
  by (cases "length chars = 0") (simp_all add: pos_imp_zdiv_nonneg_iff)

lemma pixel_range_pos:
  assumes "chars \<noteq> []" and "length chars \<le> 255"
  shows "1 \<le> (255 :: int) div int (length chars)"
proof -
  have "0 < int (length chars)" and "int (length chars) \<le> 255" using assms by simp_all
  then have "0 < (255 :: int) div int (length chars)"
    by (simp add: pos_imp_zdiv_pos_iff)
  then show ?thesis by simp
qed

lemma py_floordiv_255:
  "chars \<noteq> [] \<Longrightarrow>
   py_floordiv 255 (int (length chars)) = Inr (255 div int (length chars))"
  by (simp add: py_floordiv_def)

lemma length_le_255_div_pixel_range:
  assumes "chars \<noteq> []" and "length chars \<le> 255"
  shows "int (length chars) \<le> 255 div (255 div int (length chars))"
proof -
  let ?n = "int (length chars)"
  let ?r = "(255 :: int) div ?n"
  have r: "0 < ?r" using pixel_range_pos [OF assms] by simp
  have "?n * ?r + 255 mod ?n = 255"
    by simp
  moreover have "0 \<le> 255 mod ?n"
    using assms(1) by simp
  ultimately have "?n * ?r \<le> 255"
    by linarith
  then have "(?n * ?r) div ?r \<le> 255 div ?r"
    by (rule zdiv_mono1) (use r in simp)
  then show ?thesis using r by simp
qed

lemma ramp_index_bounds:
  assumes "chars \<noteq> []" and "0 \<le> d"
  shows "0 \<le> ramp_index chars d pixel" and "ramp_index chars d pixel < int (length chars)"
proof -
  have "0 < int (length chars)" using assms(1) by simp
  moreover have "0 \<le> np_floor_divide pixel d" using assms(2) by (rule np_floor_divide_nonneg)
  ultimately show "0 \<le> ramp_index chars d pixel" and "ramp_index chars d pixel < int (length chars)"
    by (simp_all add: ramp_index_def Let_def)
qed

lemma py_getitem_in_range:
  "0 \<le> i \<Longrightarrow> i < int (length s) \<Longrightarrow> py_getitem s i = Inr (s ! nat i)"
  by (simp add: py_getitem_def Let_def)

lemma py_getitem_ramp_index:
  "chars \<noteq> [] \<Longrightarrow> 0 \<le> d \<Longrightarrow>
   py_getitem chars (ramp_index chars d pixel) = Inr (chars ! nat (ramp_index chars d pixel))"
  by (rule py_getitem_in_range) (rule ramp_index_bounds; assumption)+

lemma ramp_char_in_ramp:
  assumes "chars \<noteq> []" and "0 \<le> d"
  shows "chars ! nat (ramp_index chars d pixel) \<in> set chars"
proof -
  have "nat (ramp_index chars d pixel) < length chars"
    using ramp_index_bounds [OF assms, of pixel] by simp
  then show ?thesis by (rule nth_mem)
qed

lemma spec_index_eq:
  "spec_index chars p = min (p div (255 div int (length chars))) (int (length chars) - 1)"
proof -
  have "\<lfloor>(255 :: rat) / of_nat (length chars)\<rfloor> = 255 div int (length chars)"
    using floor_divide_of_int_eq [of 255 "int (length chars)", where ?'a = rat] by simp
  then show ?thesis
    by (simp add: spec_index_def Let_def floor_divide_of_int_eq)
qed

lemma ramp_index_spec:
  assumes "chars \<noteq> []" and "length chars \<le> 255"
  shows "ramp_index chars (255 div int (length chars)) pixel = spec_index chars (uint pixel)"
  using pixel_range_pos [OF assms]
  by (simp add: ramp_index_def np_floor_divide_def spec_index_eq Let_def)

lemma ramp_index_single: "ramp_index [c] 255 pixel = 0"
proof -
  have "0 \<le> uint pixel div 255"
    by (simp add: pos_imp_zdiv_nonneg_iff)
  then show ?thesis
    by (simp add: ramp_index_def np_floor_divide_def Let_def)
qed

lemma ramp_index_default_white: "ramp_index default_chars 25 255 = 9"
  by (simp add: ramp_index_def np_floor_divide_def default_chars_def)

text \<open>
  Claim C9. For every ramp of 1 to 255 characters and every pixel value, the divisor
  \<^verbatim>\<open>255 // len(chars)\<close> is computed and is not zero, the index is
  \<open>min(p // (255 // len(chars)), len(chars) - 1)\<close>, it lies between 0 and
  \<open>len(chars) - 1\<close>, and \<^verbatim>\<open>chars[index]\<close> does not raise.
\<close>

theorem ramp_index_in_bounds:
  assumes "chars \<noteq> []" and "length chars \<le> 255"
  shows "py_floordiv 255 (int (length chars)) = Inr (255 div int (length chars))
         \<and> 255 div int (length chars) \<noteq> 0
         \<and> ramp_index chars (255 div int (length chars)) pixel
             = min (uint pixel div (255 div int (length chars))) (int (length chars) - 1)
         \<and> 0 \<le> ramp_index chars (255 div int (length chars)) pixel
         \<and> ramp_index chars (255 div int (length chars)) pixel \<le> int (length chars) - 1
         \<and> py_getitem chars (ramp_index chars (255 div int (length chars)) pixel)
             = Inr (chars ! nat (ramp_index chars (255 div int (length chars)) pixel))"
proof -
  let ?r = "(255 :: int) div int (length chars)"
  have pos: "1 \<le> ?r" using assms by (rule pixel_range_pos)
  have b: "0 \<le> ramp_index chars ?r pixel" "ramp_index chars ?r pixel < int (length chars)"
    using ramp_index_bounds [OF assms(1), of ?r pixel] pos by simp_all
  have "ramp_index chars ?r pixel = min (uint pixel div ?r) (int (length chars) - 1)"
    using pos by (simp add: ramp_index_def np_floor_divide_def Let_def)
  moreover have "py_getitem chars (ramp_index chars ?r pixel) = Inr (chars ! nat (ramp_index chars ?r pixel))"
    using b by (rule py_getitem_in_range)
  moreover have "py_floordiv 255 (int (length chars)) = Inr ?r"
    using assms(1) by (rule py_floordiv_255)
  ultimately show ?thesis using pos b by simp
qed

theorem ramp_index_in_bounds_witness:
  "default_chars \<noteq> [] \<and> length default_chars \<le> 255
   \<and> py_floordiv 255 (int (length default_chars)) = Inr 25
   \<and> ramp_index default_chars 25 200 = 8
   \<and> py_getitem default_chars (ramp_index default_chars 25 200) = Inr CHR ''#''"
proof -
  have ne: "default_chars \<noteq> []" and le: "length default_chars \<le> 255"
    by (simp_all add: default_chars_def)
  show ?thesis
    using ramp_index_in_bounds [OF ne le, of 200] ne le
    by (simp add: default_chars_def py_getitem_def)
qed

text \<open>
  Claim C6. For every ramp for which the pixel range is computed (the division
  \<^verbatim>\<open>255 // len(chars)\<close> does not raise) and every two grey values \<open>p1 < p2\<close>, the
  index chosen for \<open>p1\<close> is at most the index chosen for \<open>p2\<close>.
\<close>

theorem ramp_index_monotone:
  assumes "py_floordiv 255 (int (length chars)) = Inr pixel_range"
      and "p1 < p2"
  shows "ramp_index chars pixel_range p1 \<le> ramp_index chars pixel_range p2"
proof -
  have "pixel_range = 255 div int (length chars)"
    using assms(1) by (simp add: py_floordiv_def split: if_splits)
  then have nonneg: "0 \<le> pixel_range"
    by (simp add: pixel_range_nonneg)
  have "uint p1 \<le> uint p2"
    using assms(2) by (simp add: word_less_def)
  then have "np_floor_divide p1 pixel_range \<le> np_floor_divide p2 pixel_range"
    using nonneg by (simp add: np_floor_divide_def zdiv_mono1)
  then show ?thesis
    unfolding ramp_index_def Let_def by linarith
qed

theorem ramp_index_monotone_witness:
  "py_floordiv 255 (int (length default_chars)) = Inr 25 \<and> (24 :: 8 word) < 25
   \<and> ramp_index default_chars 25 24 \<le> ramp_index default_chars 25 25
   \<and> ramp_index default_chars 25 24 = 0 \<and> ramp_index default_chars 25 25 = 1"
proof -
  have pr: "py_floordiv 255 (int (length default_chars)) = Inr 25"
    by (simp add: default_chars_def py_floordiv_def)
  have lt: "(24 :: 8 word) < 25" by simp
  show ?thesis
    using ramp_index_monotone [OF pr lt] pr lt
    by (simp add: ramp_index_def np_floor_divide_def default_chars_def)
qed

text \<open>
  Claim C3, amended. For every ramp of 1 to 255 characters, the pixel value 255 is given
  the index \<open>len(ramp) - 1\<close>, which is within bounds, and so the last character of the
  ramp.
\<close>

theorem white_pixel_maps_to_last_char:
  assumes "chars \<noteq> []" and "length chars \<le> 255"
      and "py_floordiv 255 (int (length chars)) = Inr pixel_range"
  shows "ramp_index chars pixel_range 255 = int (length chars) - 1
         \<and> py_getitem chars (ramp_index chars pixel_range 255) = Inr (last chars)"
proof -
  have pr: "pixel_range = 255 div int (length chars)"
    using assms(1,3) by (simp add: py_floordiv_def)
  have pos: "1 \<le> pixel_range"
    unfolding pr using assms(1,2) by (rule pixel_range_pos)
  have "int (length chars) \<le> 255 div pixel_range"
    unfolding pr using assms(1,2) by (rule length_le_255_div_pixel_range)
  then have idx: "ramp_index chars pixel_range 255 = int (length chars) - 1"
    using pos by (simp add: ramp_index_def np_floor_divide_def Let_def)
  have "nat (int (length chars) - 1) = length chars - 1"
    by simp
  then have "py_getitem chars (int (length chars) - 1) = Inr (chars ! (length chars - 1))"
    using assms(1) by (simp add: py_getitem_def Let_def)
  then show ?thesis
    using assms(1) by (simp add: idx last_conv_nth)
qed

theorem white_pixel_maps_to_last_char_witness:
  "default_chars \<noteq> [] \<and> length default_chars \<le> 255
   \<and> py_floordiv 255 (int (length default_chars)) = Inr 25
   \<and> ramp_index default_chars 25 255 = 9
   \<and> py_getitem default_chars (ramp_index default_chars 25 255) = Inr CHR ''@''"
proof -
  have ne: "default_chars \<noteq> []" and le: "length default_chars \<le> 255"
    and pr: "py_floordiv 255 (int (length default_chars)) = Inr 25"
    by (simp_all add: default_chars_def py_floordiv_def)
  show ?thesis
    using white_pixel_maps_to_last_char [OF ne le pr] ne le pr
    by (simp add: default_chars_def py_getitem_def)
qed

text \<open>
  Claim C3 as stated, for ramps of any length, fails at 256 characters: the pixel range
  is 0, every pixel is given the index 0, and a white pixel is rendered as the first
  character of the ramp, not as the last.
\<close>

theorem white_pixel_long_ramp_counterexample:
  "length long_ramp = 256
   \<and> py_floordiv 255 (int (length long_ramp)) = Inr 0
   \<and> ramp_index long_ramp 0 255 \<noteq> int (length long_ramp) - 1
   \<and> render_pixels long_ramp [ [255] ] = Inr ''a''
   \<and> last long_ramp = CHR ''b''"
  by (simp add: long_ramp_def py_floordiv_def ramp_index_def np_floor_divide_def
      render_pixels_def py_getitem_def nth_append)

section \<open>The two loops\<close>

lemma render_row_eq:
  assumes "chars \<noteq> []" and "0 \<le> d"
  shows "render_row chars d row row_chars =
         Inr (row_chars @ map (\<lambda>pixel. chars ! nat (ramp_index chars d pixel)) row)"
  using assms
  by (induction row arbitrary: row_chars) (simp_all add: py_getitem_ramp_index)

lemma render_rows_eq:
  assumes "chars \<noteq> []" and "0 \<le> d"
  shows "render_rows chars d pixel_values ascii_art =
         Inr (ascii_art @
              map (\<lambda>row. map (\<lambda>pixel. chars ! nat (ramp_index chars d pixel)) row) pixel_values)"
  using assms
  by (induction pixel_values arbitrary: ascii_art) (simp_all add: render_row_eq)

lemma render_pixels_eq:
  assumes "chars \<noteq> []"
  shows "render_pixels chars pixel_values =
         Inr (py_join [newline]
               (map (\<lambda>row. map (\<lambda>pixel. chars ! nat (ramp_index chars (255 div int (length chars)) pixel)) row)
                    pixel_values))"
  using assms
  by (simp add: render_pixels_def py_floordiv_255 render_rows_eq pixel_range_nonneg)

lemma render_pixels_empty_ramp:
  "render_pixels [] pixel_values = Inl (ZeroDivisionError ''integer division or modulo by zero'')"
  by (simp add: render_pixels_def py_floordiv_def)

section \<open>Joining rows and splitting them again\<close>

lemma py_split_no_sep: "c \<notin> set r \<Longrightarrow> py_split c r = [r]"
  by (induction r) auto

lemma py_split_append_sep:
  "c \<notin> set r \<Longrightarrow> py_split c (r @ c # rest) = r # py_split c rest"
  by (induction r) auto

lemma py_split_join:
  assumes "rows \<noteq> []" and "\<forall>r \<in> set rows. c \<notin> set r"
  shows "py_split c (py_join [c] rows) = rows"
  using assms
proof (induction "[c]" rows rule: py_join.induct)
  case 1
  then show ?case by simp
next
  case (2 x)
  then show ?case by (simp add: py_split_no_sep)
next
  case (3 x y ys)
  then show ?case by (simp add: py_split_append_sep)
qed

lemma set_py_join: "set (py_join sep rows) \<subseteq> set sep \<union> \<Union> (set ` set rows)"
  by (induction sep rows rule: py_join.induct) auto

section \<open>The height of the grid\<close>

text \<open>
  When \<^verbatim>\<open>int(scale * (height / width) * columns)\<close> is computed and is at least 1, the
  scale is a finite float, the width is not zero, each of the three operations gives a
  finite float, namely the exact result rounded, and the height is the integer part of
  the last one.
\<close>

lemma py_int_ge_1D:
  assumes "py_int x = Inr n" and "1 \<le> n"
  shows "\<exists>p. x = Finite p \<and> n = \<lfloor>p\<rfloor>"
proof (cases x)
  case (Finite p)
  with assms have n: "n = (if 0 \<le> p then \<lfloor>p\<rfloor> else \<lceil>p\<rceil>)" by simp
  have "0 \<le> p"
  proof (rule ccontr)
    assume "\<not> 0 \<le> p"
    then have "\<lceil>p\<rceil> \<le> 0" by simp
    with n \<open>\<not> 0 \<le> p\<close> assms(2) show False by simp
  qed
  with n Finite show ?thesis by simp
qed (use assms in simp_all)

lemma py_float_mul_FiniteD:
  assumes "py_float_mul x (Finite c) = Finite p"
  shows "\<exists>b. x = Finite b \<and> round_binary64 (b * c) = Finite p"
  using assms by (cases x) (simp_all split: if_splits)

lemma new_height_of_InrD:
  assumes "new_height_of scale im columns = Inr n" and "1 \<le> n"
  shows "\<exists>s a b c p. scale = Finite s \<and> width im \<noteq> 0
           \<and> round_binary64 (of_int (height im) / of_int (width im)) = Finite a
           \<and> round_binary64 (s * a) = Finite b
           \<and> round_binary64 (of_int columns) = Finite c
           \<and> round_binary64 (b * c) = Finite p
           \<and> n = \<lfloor>p\<rfloor>"
proof -
  from assms(1) obtain aspect_ratio h
    where ar: "py_truediv (height im) (width im) = Inr aspect_ratio"
      and h: "py_float_mul_int (py_float_mul scale aspect_ratio) columns = Inr h"
      and n: "py_int h = Inr n"
    by (auto simp: new_height_of_def Let_def split: sum.splits)
  from ar obtain a where w: "width im \<noteq> 0"
      and a: "round_binary64 (of_int (height im) / of_int (width im)) = Finite a"
      and ar_eq: "aspect_ratio = Finite a"
    by (auto simp: py_truediv_def split: if_splits pyfloat.splits)
  from h obtain c where c: "round_binary64 (of_int columns) = Finite c"
      and h_eq: "h = py_float_mul (py_float_mul scale (Finite a)) (Finite c)"
    by (auto simp: py_float_mul_int_def py_float_of_int_def ar_eq split: sum.splits pyfloat.splits)
  from py_int_ge_1D [OF n assms(2)] obtain p where p: "h = Finite p" and np: "n = \<lfloor>p\<rfloor>"
    by blast
  from py_float_mul_FiniteD [of "py_float_mul scale (Finite a)" c p] h_eq p
  obtain b where b: "py_float_mul scale (Finite a) = Finite b"
      and bc: "round_binary64 (b * c) = Finite p"
    by auto
  from py_float_mul_FiniteD [OF b] obtain a' where "scale = Finite a'"
      and "round_binary64 (a' * a) = Finite b"
    by blast
  with w a c bc np show ?thesis by blast
qed

section \<open>The matrix of grey values\<close>

lemma length_np_array: "length (np_array im) = nat (height im)"
  by (simp add: np_array_def)

lemma length_row_np_array: "row \<in> set (np_array im) \<Longrightarrow> length row = nat (width im)"
  by (auto simp: np_array_def)

lemma np_array_constant:
  assumes "\<And>x y. pixels im x y = v"
  shows "np_array im = replicate (nat (height im)) (replicate (nat (width im)) v)"
  by (simp add: np_array_def assms map_replicate_const)

lemma pixel_values_of_DecodableD:
  assumes "pixel_values_of w file_path columns scale = Inr pixel_values"
      and "files w file_path = Decodable im"
  shows "\<exists>new_height. new_height_of scale im columns = Inr new_height \<and> 1 \<le> columns \<and> 1 \<le> new_height \<and>
           pixel_values = np_array (Image_convert_L w \<lparr>width = columns, height = new_height,
                pixels = resampler w im (columns, new_height)\<rparr>)"
  using assms
  by (auto simp: pixel_values_of_def Image_open_def Image_resize_def split: sum.splits if_splits)

lemma image_to_ascii_try_InrD:
  assumes "image_to_ascii_try w file_path columns scale chars = Inr ascii_art"
  shows "\<exists>pixel_values. pixel_values_of w file_path columns scale = Inr pixel_values
           \<and> render_pixels chars pixel_values = Inr ascii_art \<and> chars \<noteq> []"
proof -
  from assms obtain pixel_values
    where pv: "pixel_values_of w file_path columns scale = Inr pixel_values"
      and rp: "render_pixels chars pixel_values = Inr ascii_art"
    by (auto simp: image_to_ascii_try_def split: sum.splits)
  have "chars \<noteq> []"
    using rp by (auto simp: render_pixels_empty_ramp)
  with pv rp show ?thesis by blast
qed

section \<open>The examples evaluated\<close>

text \<open>
  The numbers 0, 1, 2, 5, 10 and one half are floats, so rounding leaves them as they
  are; with them the grid heights of the examples are computed.
\<close>

lemma round_binary64_0: "round_binary64 0 = Finite 0"
  by (simp add: round_binary64_def)

lemma round_binary64_1: "round_binary64 1 = Finite 1"
  unfolding round_binary64_def Let_def
  by (simp add: floor_log2_def bit_length.simps pow2_def round_half_even_def Let_def)

lemma round_binary64_2: "round_binary64 2 = Finite 2"
  unfolding round_binary64_def Let_def
  by (simp add: floor_log2_def bit_length.simps pow2_def round_half_even_def Let_def)

lemma round_binary64_3: "round_binary64 3 = Finite 3"
  unfolding round_binary64_def Let_def
  by (simp add: floor_log2_def bit_length.simps pow2_def round_half_even_def Let_def)

lemma round_binary64_5: "round_binary64 5 = Finite 5"
  unfolding round_binary64_def Let_def
  by (simp add: floor_log2_def bit_length.simps pow2_def round_half_even_def Let_def)

lemma round_binary64_6: "round_binary64 6 = Finite 6"
  unfolding round_binary64_def Let_def
  by (simp add: floor_log2_def bit_length.simps pow2_def round_half_even_def Let_def)

lemma round_binary64_10: "round_binary64 10 = Finite 10"
  unfolding round_binary64_def Let_def
  by (simp add: floor_log2_def bit_length.simps pow2_def round_half_even_def Let_def)

lemma round_binary64_half: "round_binary64 (1 / 2) = Finite (1 / 2)"
  unfolding round_binary64_def Let_def
  by (simp add: floor_log2_def bit_length.simps pow2_def round_half_even_def Let_def)

lemma new_height_of_10_10:
  "width im = 10 \<Longrightarrow> height im = 10 \<Longrightarrow> new_height_of (Finite (1 / 2)) im 10 = Inr 5"
  by (simp add: new_height_of_def py_truediv_def py_float_mul_int_def py_float_of_int_def
      round_binary64_1 round_binary64_half round_binary64_10 round_binary64_5)

lemma new_height_of_2_2:
  "width im = 2 \<Longrightarrow> height im = 2 \<Longrightarrow> new_height_of (Finite 1) im 2 = Inr 2"
  by (simp add: new_height_of_def py_truediv_def py_float_mul_int_def py_float_of_int_def
      round_binary64_1 round_binary64_2)

lemma new_height_of_zero_columns:
  "width im = 10 \<Longrightarrow> height im = 10 \<Longrightarrow> new_height_of (Finite (1 / 2)) im 0 = Inr 0"
  by (simp add: new_height_of_def py_truediv_def py_float_mul_int_def py_float_of_int_def
      round_binary64_1 round_binary64_half round_binary64_0)

lemma pixel_values_of_ramp_png:
  "pixel_values_of demo_world ''ramp.png'' 2 (Finite 1) = Inr [ [0, 100], [50, 150] ]"
  by (simp add: pixel_values_of_def Image_open_def demo_world_def new_height_of_2_2
      Image_resize_def Image_convert_L_def np_array_def numeral_2_eq_2)

lemma files_ramp_png: "files demo_world ''ramp.png'' = Decodable ramp_image"
  by (simp add: demo_world_def ramp_image_def)

lemma new_height_of_ramp_image_6:
  "new_height_of (Finite (1 / 2)) ramp_image 6 = Inr 3"
  by (simp add: new_height_of_def py_truediv_def py_float_mul_int_def py_float_of_int_def
      ramp_image_def round_binary64_1 round_binary64_half round_binary64_6 round_binary64_3)

lemma upt_6: "[0 ..< 6] = [0, 1, 2, 3, 4, 5]"
  by (simp add: eval_nat_numeral)

lemma upt_3: "[0 ..< 3] = [0, 1, 2]"
  by (simp add: eval_nat_numeral)

lemma pixel_values_of_ramp_png_6:
  "pixel_values_of demo_world ''ramp.png'' 6 (Finite (1 / 2))
   = Inr [ [0, 100, 100, 100, 100, 100], [50, 150, 150, 150, 150, 150],
           [50, 150, 150, 150, 150, 150] ]"
  by (simp add: pixel_values_of_def Image_open_def files_ramp_png new_height_of_ramp_image_6
      Image_resize_def Image_convert_L_def np_array_def upt_6 upt_3)
    (simp add: demo_world_def ramp_image_def)

lemma image_to_ascii_try_ramp_png_6:
  "image_to_ascii_try demo_world ''ramp.png'' 6 (Finite (1 / 2)) default_chars
   = Inr ('' ;;;;;'' @ newline # '',xxxxx'' @ newline # '',xxxxx'')"
  by (simp add: image_to_ascii_try_def pixel_values_of_ramp_png_6 render_pixels_def py_floordiv_def
      default_chars_def ramp_index_def np_floor_divide_def py_getitem_def)

lemma image_to_ascii_try_newline_ramp:
  "image_to_ascii_try demo_world ''ramp.png'' 2 (Finite 1) newline_ramp
   = Inr (newline # '';'' @ newline # '',x'')"
  by (simp add: image_to_ascii_try_def pixel_values_of_ramp_png render_pixels_def py_floordiv_def
      newline_ramp_def ramp_index_def np_floor_divide_def py_getitem_def)

lemma image_to_ascii_try_zero_columns:
  "image_to_ascii_try demo_world ''white.png'' 0 (Finite (1 / 2)) default_chars
   = Inl (ValueError ''height and width must be > 0'')"
  by (simp add: image_to_ascii_try_def pixel_values_of_def Image_open_def demo_world_def
      new_height_of_zero_columns Image_resize_def)

lemma image_to_ascii_secret_png:
  "image_to_ascii demo_world ''secret.png'' default_columns default_scale default_chars
   = ''An error occurred: [Errno 13] Permission denied: '' @ py_repr ''secret.png''"
  by (simp add: image_to_ascii_def image_to_ascii_try_def pixel_values_of_def Image_open_def
      demo_world_def handle_exn_def)

lemma image_to_ascii_img_png:
  "image_to_ascii demo_world ''img.png'' default_columns default_scale default_chars
   = ''An error occurred: cannot identify image file '' @ py_repr ''img.png''"
  by (simp add: image_to_ascii_def image_to_ascii_try_def pixel_values_of_def Image_open_def
      demo_world_def handle_exn_def)

section \<open>The rendered text\<close>

text \<open>
  Claim C1. When the image at the path is decoded and resized, the ramp is not empty and
  has at most 255 characters, the text returned is the rows of the grey-value matrix, in
  order and joined by line breaks, each row being the characters
  \<open>ramp[min(floor(p / floor(255 / len(ramp))), len(ramp) - 1)]\<close> of its pixel values \<open>p\<close>
  in order; and that index is a position of the ramp for every pixel value.
\<close>

theorem pixels_rendered_by_ramp_formula:
  assumes "pixel_values_of w file_path columns scale = Inr pixel_values"
      and "chars \<noteq> []" and "length chars \<le> 255"
  shows "image_to_ascii w file_path columns scale chars =
           py_join [newline]
             (map (\<lambda>row. map (\<lambda>pixel. chars ! nat (spec_index chars (uint pixel))) row)
                  pixel_values)
         \<and> (\<forall>pixel :: 8 word. py_getitem chars (spec_index chars (uint pixel)) =
                      Inr (chars ! nat (spec_index chars (uint pixel))))"
proof -
  have idx: "ramp_index chars (255 div int (length chars)) pixel = spec_index chars (uint pixel)"
    for pixel :: "8 word"
    using assms(2,3) by (rule ramp_index_spec)
  have "render_pixels chars pixel_values =
          Inr (py_join [newline]
                (map (\<lambda>row. map (\<lambda>pixel. chars ! nat (spec_index chars (uint pixel))) row)
                     pixel_values))"
    using render_pixels_eq [OF assms(2), of pixel_values] by (simp add: idx)
  then have "image_to_ascii w file_path columns scale chars =
           py_join [newline]
             (map (\<lambda>row. map (\<lambda>pixel. chars ! nat (spec_index chars (uint pixel))) row)
                  pixel_values)"
    using assms(1) by (simp add: image_to_ascii_def image_to_ascii_try_def)
  moreover have "py_getitem chars (spec_index chars (uint pixel)) =
                      Inr (chars ! nat (spec_index chars (uint pixel)))" for pixel :: "8 word"
    using py_getitem_ramp_index [OF assms(2) pixel_range_nonneg, of chars pixel]
    by (simp add: idx)
  ultimately show ?thesis by simp
qed

theorem pixels_rendered_by_ramp_formula_witness:
  "pixel_values_of demo_world ''ramp.png'' 2 (Finite 1) = Inr [ [0, 100], [50, 150] ]
   \<and> default_chars \<noteq> [] \<and> length default_chars \<le> 255
   \<and> image_to_ascii demo_world ''ramp.png'' 2 (Finite 1) default_chars
       = '' ;'' @ [newline] @ '',x''"
proof -
  have ne: "default_chars \<noteq> []" and le: "length default_chars \<le> 255"
    by (simp_all add: default_chars_def)
  show ?thesis
    using pixels_rendered_by_ramp_formula [OF pixel_values_of_ramp_png ne le] ne le
    by (simp add: pixel_values_of_ramp_png spec_index_eq default_chars_def)
qed

text \<open>
  Claim C2, amended. When the path holds a decodable image, the ramp does not contain
  the line-break character and the render succeeds (the \<^verbatim>\<open>try\<close> block returns),
  the rows of the returned text, separated by line breaks, are as many as
  \<^verbatim>\<open>int(scale * (height / width) * columns)\<close> and each has \<open>columns\<close> characters.
  The number is spelled out in binary64 arithmetic: the width is not zero, the scale is
  a finite float \<open>s\<close>, the quotient \<open>height / width\<close> rounds to a float \<open>a\<close>, the product
  \<open>s * a\<close> to a float \<open>b\<close>, \<open>columns\<close> to a float \<open>c\<close>, the product \<open>b * c\<close> to a float
  \<open>p\<close>, and the number of rows is the integer part of \<open>p\<close>.
\<close>

theorem output_grid_dimensions:
  assumes "files w file_path = Decodable im"
      and "image_to_ascii_try w file_path columns scale chars = Inr ascii_art"
      and "newline \<notin> set chars"
  shows "(\<exists>s a b c p.
            scale = Finite s \<and> width im \<noteq> 0
          \<and> round_binary64 (of_int (height im) / of_int (width im)) = Finite a
          \<and> round_binary64 (s * a) = Finite b
          \<and> round_binary64 (of_int columns) = Finite c
          \<and> round_binary64 (b * c) = Finite p
          \<and> int (length (py_split newline (image_to_ascii w file_path columns scale chars)))
              = \<lfloor>p\<rfloor>)
         \<and> new_height_of scale im columns =
           Inr (int (length (py_split newline (image_to_ascii w file_path columns scale chars))))
         \<and> (\<forall>row \<in> set (py_split newline (image_to_ascii w file_path columns scale chars)).
               int (length row) = columns)"
proof -
  let ?r = "(255 :: int) div int (length chars)"
  let ?f = "\<lambda>row. map (\<lambda>pixel. chars ! nat (ramp_index chars ?r pixel)) row"
  from image_to_ascii_try_InrD [OF assms(2)] obtain pixel_values
    where pv: "pixel_values_of w file_path columns scale = Inr pixel_values"
      and rp: "render_pixels chars pixel_values = Inr ascii_art"
      and ne: "chars \<noteq> []"
    by blast
  from pixel_values_of_DecodableD [OF pv assms(1)] obtain new_height
    where nh: "new_height_of scale im columns = Inr new_height"
      and c1: "1 \<le> columns" and h1: "1 \<le> new_height"
      and arr: "pixel_values = np_array (Image_convert_L w
                  \<lparr>width = columns, height = new_height,
                   pixels = resampler w im (columns, new_height)\<rparr>)"
    by blast
  have len: "length pixel_values = nat new_height"
    unfolding arr by (simp add: length_np_array Image_convert_L_def)
  have row_len: "length row = nat columns" if "row \<in> set pixel_values" for row
    using that unfolding arr by (simp add: length_row_np_array Image_convert_L_def)
  have art: "ascii_art = py_join [newline] (map ?f pixel_values)"
    using rp by (simp add: render_pixels_eq [OF ne])
  have rows_ne: "map ?f pixel_values \<noteq> []"
    using len h1 by auto
  have no_nl: "\<forall>r \<in> set (map ?f pixel_values). newline \<notin> set r"
  proof
    fix r
    assume "r \<in> set (map ?f pixel_values)"
    then obtain row where "r = ?f row" by auto
    then have "set r \<subseteq> set chars"
      using ramp_char_in_ramp [OF ne pixel_range_nonneg] by auto
    then show "newline \<notin> set r"
      using assms(3) by auto
  qed
  have split: "py_split newline ascii_art = map ?f pixel_values"
    unfolding art using rows_ne no_nl by (rule py_split_join)
  have res: "image_to_ascii w file_path columns scale chars = ascii_art"
    using assms(2) by (simp add: image_to_ascii_def)
  have rows: "int (length (py_split newline ascii_art)) = new_height"
    using len h1 by (simp add: split)
  have cols: "\<forall>row \<in> set (py_split newline ascii_art). int (length row) = columns"
    using row_len c1 by (auto simp: split)
  from new_height_of_InrD [OF nh h1] obtain s a b c p
    where "scale = Finite s" and "width im \<noteq> 0"
      and "round_binary64 (of_int (height im) / of_int (width im)) = Finite a"
      and "round_binary64 (s * a) = Finite b"
      and "round_binary64 (of_int columns) = Finite c"
      and "round_binary64 (b * c) = Finite p"
      and "new_height = \<lfloor>p\<rfloor>"
    by blast
  then have "\<exists>s a b c p.
            scale = Finite s \<and> width im \<noteq> 0
          \<and> round_binary64 (of_int (height im) / of_int (width im)) = Finite a
          \<and> round_binary64 (s * a) = Finite b
          \<and> round_binary64 (of_int columns) = Finite c
          \<and> round_binary64 (b * c) = Finite p
          \<and> int (length (py_split newline ascii_art)) = \<lfloor>p\<rfloor>"
    using rows by blast
  then show ?thesis
    using rows cols nh unfolding res by simp
qed

theorem output_grid_dimensions_witness:
  "files demo_world ''ramp.png'' = Decodable ramp_image
   \<and> width ramp_image = 2 \<and> height ramp_image = 2
   \<and> image_to_ascii_try demo_world ''ramp.png'' 6 (Finite (1 / 2)) default_chars
       = Inr ('' ;;;;;'' @ newline # '',xxxxx'' @ newline # '',xxxxx'')
   \<and> newline \<notin> set default_chars
   \<and> new_height_of (Finite (1 / 2)) ramp_image 6 = Inr 3
   \<and> py_split newline
        (image_to_ascii demo_world ''ramp.png'' 6 (Finite (1 / 2)) default_chars)
       = ['' ;;;;;'', '',xxxxx'', '',xxxxx'']"
proof -
  have nl: "newline \<notin> set default_chars"
    by (simp add: default_chars_def newline_def)
  show ?thesis
    using output_grid_dimensions [OF files_ramp_png image_to_ascii_try_ramp_png_6 nl] nl
    by (simp add: files_ramp_png image_to_ascii_try_ramp_png_6 image_to_ascii_def newline_def
        new_height_of_ramp_image_6 ramp_image_def)
qed

text \<open>
  Claim C2 as stated names no condition on the ramp. With the line break as the first
  character of the ramp, the render of the 2 by 2 image with 2 columns and scale 1
  succeeds and \<^verbatim>\<open>int(1.0 * (2 / 2) * 2)\<close> is 2, yet the returned text has 3 rows
  separated by line breaks, of 0, 1 and 2 characters.
\<close>

theorem newline_in_ramp_counterexample:
  "files demo_world ''ramp.png'' = Decodable ramp_image
   \<and> image_to_ascii_try demo_world ''ramp.png'' 2 (Finite 1) newline_ramp
       = Inr (newline # '';'' @ newline # '',x'')
   \<and> py_truediv (height ramp_image) (width ramp_image) = Inr (Finite 1)
   \<and> py_float_mul_int (py_float_mul (Finite 1) (Finite 1)) 2 = Inr (Finite 2)
   \<and> py_int (Finite 2) = Inr 2
   \<and> new_height_of (Finite 1) ramp_image 2 = Inr 2
   \<and> py_split newline (image_to_ascii demo_world ''ramp.png'' 2 (Finite 1) newline_ramp)
       = [ [], '';'', '',x'' ]
   \<and> int (length (py_split newline
         (image_to_ascii demo_world ''ramp.png'' 2 (Finite 1) newline_ramp))) \<noteq> 2
   \<and> int (length (hd (py_split newline
         (image_to_ascii demo_world ''ramp.png'' 2 (Finite 1) newline_ramp)))) \<noteq> 2"
  by (simp add: files_ramp_png image_to_ascii_try_newline_ramp image_to_ascii_def newline_def
      new_height_of_2_2 ramp_image_def py_truediv_def py_float_mul_int_def py_float_of_int_def
      round_binary64_1 round_binary64_2)

text \<open>
  Claim C10. With a ramp of exactly one character, the pixel range is 255, every pixel
  value (255 included) is given the index 0, each row of the matrix is rendered as that
  character repeated, and the returned text holds nothing but that character and line
  breaks.
\<close>

theorem single_char_ramp:
  assumes "pixel_values_of w file_path columns scale = Inr pixel_values"
  shows "py_floordiv 255 (int (length [c])) = Inr 255
         \<and> (\<forall>pixel :: 8 word. ramp_index [c] 255 pixel = 0)
         \<and> image_to_ascii w file_path columns scale [c] =
             py_join [newline] (map (\<lambda>row. replicate (length row) c) pixel_values)
         \<and> (\<forall>x \<in> set (image_to_ascii w file_path columns scale [c]). x = c \<or> x = newline)"
proof -
  have "render_pixels [c] pixel_values =
          Inr (py_join [newline] (map (\<lambda>row. replicate (length row) c) pixel_values))"
    using render_pixels_eq [of "[c]" pixel_values]
    by (simp add: ramp_index_single map_replicate_const)
  then have res: "image_to_ascii w file_path columns scale [c] =
             py_join [newline] (map (\<lambda>row. replicate (length row) c) pixel_values)"
    using assms by (simp add: image_to_ascii_def image_to_ascii_try_def)
  have "set (py_join [newline] (map (\<lambda>row. replicate (length row) c) pixel_values))
          \<subseteq> {newline, c}"
    using set_py_join [of "[newline]" "map (\<lambda>row. replicate (length row) c) pixel_values"]
    by auto
  then have "\<forall>x \<in> set (image_to_ascii w file_path columns scale [c]). x = c \<or> x = newline"
    unfolding res by auto
  then show ?thesis
    using res by (simp add: py_floordiv_def ramp_index_single)
qed

theorem single_char_ramp_witness:
  "pixel_values_of demo_world ''ramp.png'' 2 (Finite 1) = Inr [ [0, 100], [50, 150] ]
   \<and> ramp_index ''#'' 255 255 = 0
   \<and> image_to_ascii demo_world ''ramp.png'' 2 (Finite 1) ''#'' = ''##'' @ [newline] @ ''##''"
  using single_char_ramp [OF pixel_values_of_ramp_png, of "CHR ''#''"]
  by (simp add: pixel_values_of_ramp_png numeral_2_eq_2)

text \<open>
  Claim C8. For a white image of 10 by 10 pixels, \<open>columns = 10\<close>, \<open>scale = 0.5\<close> and
  the default ramp, the returned text is 5 rows of 10 characters \<open>@\<close>. The resampling
  filter is a parameter of the model, so that the image is white is stated on what the
  program reads: every grey value of every resampling of the image is 255.
\<close>

theorem white_square_renders_as_at_signs:
  assumes "files w file_path = Decodable im"
      and "width im = 10" and "height im = 10"
      and "\<And>new_size x y. luminance w (resampler w im new_size x y) = 255"
  shows "py_split newline (image_to_ascii w file_path 10 (Finite (1 / 2)) default_chars)
         = [''@@@@@@@@@@'', ''@@@@@@@@@@'', ''@@@@@@@@@@'', ''@@@@@@@@@@'', ''@@@@@@@@@@'']
         \<and> image_to_ascii w file_path 10 (Finite (1 / 2)) default_chars
         = py_join [newline] (replicate 5 (replicate 10 CHR ''@''))"
proof -
  have nh: "new_height_of (Finite (1 / 2)) im 10 = Inr 5"
    using assms(2,3) by (rule new_height_of_10_10)
  have "np_array (Image_convert_L w \<lparr>width = 10, height = 5, pixels = resampler w im (10, 5)\<rparr>)
        = replicate 5 (replicate 10 255)"
    using np_array_constant [of "Image_convert_L w \<lparr>width = 10, height = 5, pixels = resampler w im (10, 5)\<rparr>" 255]
    by (simp add: Image_convert_L_def assms(4))
  then have pv: "pixel_values_of w file_path 10 (Finite (1 / 2)) = Inr (replicate 5 (replicate 10 255))"
    by (simp add: pixel_values_of_def Image_open_def assms(1) nh Image_resize_def)
  have ne: "default_chars \<noteq> []" and len: "int (length default_chars) = 10"
    by (simp_all add: default_chars_def)
  have "render_pixels default_chars (replicate 5 (replicate 10 255))
        = Inr (py_join [newline] (replicate 5 (replicate 10 (default_chars ! 9))))"
    using render_pixels_eq [OF ne, of "replicate 5 (replicate 10 255)"]
    by (simp add: len ramp_index_default_white)
  moreover have "default_chars ! 9 = CHR ''@''"
    by (simp add: default_chars_def)
  ultimately have res: "image_to_ascii w file_path 10 (Finite (1 / 2)) default_chars
         = py_join [newline] (replicate 5 (replicate 10 CHR ''@''))"
    using pv by (simp add: image_to_ascii_def image_to_ascii_try_def)
  have "py_split newline (py_join [newline] (replicate 5 (replicate 10 CHR ''@'')))
        = replicate 5 (replicate 10 CHR ''@'')"
    by (rule py_split_join) (simp_all add: newline_def)
  moreover have "replicate 5 (replicate 10 CHR ''@'')
        = [''@@@@@@@@@@'', ''@@@@@@@@@@'', ''@@@@@@@@@@'', ''@@@@@@@@@@'', ''@@@@@@@@@@'']"
    by (simp add: eval_nat_numeral)
  ultimately show ?thesis
    using res by simp
qed

theorem white_square_renders_as_at_signs_witness:
  "files demo_world ''white.png'' = Decodable \<lparr>width = 10, height = 10, pixels = (\<lambda>x y. 255)\<rparr>
   \<and> py_split newline (image_to_ascii demo_world ''white.png'' 10 (Finite (1 / 2)) default_chars)
       = [''@@@@@@@@@@'', ''@@@@@@@@@@'', ''@@@@@@@@@@'', ''@@@@@@@@@@'', ''@@@@@@@@@@'']"
proof -
  have f: "files demo_world ''white.png'' = Decodable \<lparr>width = 10, height = 10, pixels = (\<lambda>x y. 255)\<rparr>"
    by (simp add: demo_world_def)
  have white: "luminance demo_world
                 (resampler demo_world \<lparr>width = 10, height = 10, pixels = (\<lambda>x y. 255)\<rparr> new_size x y) = 255"
    for new_size x y
    by (simp add: demo_world_def)
  have wd: "width \<lparr>width = 10, height = 10, pixels = (\<lambda>x y. 255 :: 8 word)\<rparr> = 10"
    and ht: "height \<lparr>width = 10, height = 10, pixels = (\<lambda>x y. 255 :: 8 word)\<rparr> = 10"
    by simp_all
  show ?thesis
    using white_square_renders_as_at_signs [OF f wd ht white, THEN conjunct1] f
    by simp
qed

section \<open>Failures\<close>

text \<open>
  Claim C7. \<open>image_to_ascii\<close> is a total function into strings: whatever the path holds,
  whatever the columns, the scale and the ramp are, every exception of the \<^verbatim>\<open>try\<close>
  block is turned into a returned string. When the block fails with anything but
  \<^verbatim>\<open>FileNotFoundError\<close>, the string returned is \<open>An error occurred: \<close> followed by the
  description of the failure.
\<close>

theorem failures_become_messages:
  assumes "image_to_ascii_try w file_path columns scale chars = Inl e"
      and "\<not> is_FileNotFoundError e"
  shows "image_to_ascii w file_path columns scale chars = ''An error occurred: '' @ str_exn e"
  using assms by (simp add: image_to_ascii_def handle_exn_def)

theorem failures_become_messages_witness:
  "image_to_ascii_try demo_world ''white.png'' 0 (Finite (1 / 2)) default_chars
     = Inl (ValueError ''height and width must be > 0'')
   \<and> \<not> is_FileNotFoundError (ValueError ''height and width must be > 0'')
   \<and> image_to_ascii demo_world ''white.png'' 0 (Finite (1 / 2)) default_chars
       = ''An error occurred: height and width must be > 0''"
proof -
  have nf: "\<not> is_FileNotFoundError (ValueError ''height and width must be > 0'')"
    by simp
  show ?thesis
    using failures_become_messages [OF image_to_ascii_try_zero_columns nf] nf
    by (simp add: image_to_ascii_try_zero_columns)
qed

lemma image_to_ascii_Absent:
  "files w file_path = Absent m \<Longrightarrow>
   image_to_ascii w file_path columns scale chars = file_not_found_message"
  by (simp add: image_to_ascii_def image_to_ascii_try_def pixel_values_of_def Image_open_def
      handle_exn_def)

lemma file_not_found_message_mentions_not_found:
  "py_in ''not found'' (py_lower file_not_found_message)"
  by (simp add: file_not_found_message_def py_lower_def lower_char_def py_startswith_def)

lemma file_not_found_message_prefix: "py_startswith file_not_found_message ''Error:''"
  by (simp add: file_not_found_message_def py_startswith_def)

text \<open>
  Claim C5, amended. For every path at which no file exists (opening it raises
  \<^verbatim>\<open>FileNotFoundError\<close>), the render returns the file-not-found message, which
  contains \<open>not found\<close>, and the script run on that path prints the message and writes no
  file.
\<close>

theorem missing_file_is_reported:
  assumes "files w file_path = Absent m"
  shows "image_to_ascii w file_path columns scale chars = file_not_found_message
         \<and> py_in ''not found'' (py_lower (image_to_ascii w file_path columns scale chars))
         \<and> script w file_path output_path = \<lparr>printed = [file_not_found_message], written = []\<rparr>"
  using assms
  by (simp add: image_to_ascii_Absent file_not_found_message_mentions_not_found
      script_def file_not_found_message_prefix)

theorem missing_file_is_reported_witness:
  "files demo_world ''missing.png'' = Absent (''[Errno 2] No such file or directory: '' @ py_repr ''missing.png'')
   \<and> image_to_ascii demo_world ''missing.png'' 80 (Finite (1 / 2)) default_chars
       = ''Error: The file was not found. Check the file path.''
   \<and> written (script demo_world ''missing.png'' ''ascii_art.txt'') = []"
proof -
  have f: "files demo_world ''missing.png'' = Absent (''[Errno 2] No such file or directory: '' @ py_repr ''missing.png'')"
    by (simp add: demo_world_def)
  show ?thesis
    using missing_file_is_reported [OF f, of 80 "Finite (1 / 2)" default_chars "''ascii_art.txt''"] f
    by (simp add: file_not_found_message_def)
qed

text \<open>
  Claim C5 as stated, for every path that does not resolve to a readable file, fails at
  a file that exists and may not be read: opening it raises \<^verbatim>\<open>PermissionError\<close>, the
  render returns the generic message, which does not contain \<open>not found\<close>, and the
  script writes that message to the output file.
\<close>

theorem unreadable_file_counterexample:
  "files demo_world ''secret.png'' = Unreadable (''[Errno 13] Permission denied: '' @ py_repr ''secret.png'')
   \<and> image_to_ascii demo_world ''secret.png'' default_columns default_scale default_chars
       = ''An error occurred: [Errno 13] Permission denied: '' @ py_repr ''secret.png''
   \<and> \<not> py_in ''not found''
         (py_lower (image_to_ascii demo_world ''secret.png'' default_columns default_scale
            default_chars))
   \<and> script demo_world ''secret.png'' ''ascii_art.txt''
       = \<lparr>printed = [],
          written = [(''ascii_art.txt'', ''An error occurred: [Errno 13] Permission denied: '' @ py_repr ''secret.png'')]\<rparr>"
  by (simp add: image_to_ascii_secret_png script_def py_startswith_def py_lower_def lower_char_def
      py_repr_def)
    (simp add: demo_world_def py_repr_def)

text \<open>
  Claim C4 says that the script prints the message and writes no file whenever the
  render fails. With a file \<^verbatim>\<open>img.png\<close> that is not an image the render returns
  \<open>An error occurred: cannot identify image file\<close>, which does not start with
  \<open>Error:\<close>; the script prints nothing and writes that message to
  \<^verbatim>\<open>ascii_art.txt\<close>.
\<close>

theorem processing_error_is_written_to_file:
  "files demo_world ''img.png'' = Undecodable (''cannot identify image file '' @ py_repr ''img.png'')
   \<and> main demo_world
       = \<lparr>printed = [],
          written = [(''ascii_art.txt'', ''An error occurred: cannot identify image file '' @ py_repr ''img.png'')]\<rparr>"
  by (simp add: main_def script_def image_to_ascii_img_png py_startswith_def)
    (simp add: demo_world_def)

end
